theory Spec2Isabelle
  imports Main "HOL-Library.AList" "HOL-Library.Sublist"
begin

section \<open>Exceptions\<close>

text \<open>
  The exception classes that occur in \<^verbatim>\<open>api.py\<close> and \<^verbatim>\<open>coordinator.py\<close>: the four
  classes the client declares, the library classes its handlers name, Home Assistant's
  \<^verbatim>\<open>ConfigEntryAuthFailed\<close>, and the interpreter's own errors that the dynamically typed
  code can run into. \<^verbatim>\<open>OtherError\<close> stands for any further subclass of
  \<^verbatim>\<open>Exception\<close>. \<^verbatim>\<open>NotModelled\<close> is not a Python class: it marks the one place where
  an input leaves the embedding (a device id that is not a string, see \<open>update_loop\<close>).
\<close>

datatype exn_class =
    TimeoutError
  | ClientError
  | ClientResponseError
  | ClientConnectionError
  | ServerTimeoutError
  | gaierror
  | ValidationError
  | TypeError
  | KeyError
  | AttributeError
  | OtherError
  | NotModelled
  | SleepmeApiClientError
  | SleepmeApiClientCommunicationError
  | SleepmeApiClientAuthenticationError
  | SleepmeApiClientRateLimitError
  | ConfigEntryAuthFailed

text \<open>
  An exception object: its class, its text (\<^verbatim>\<open>str(exception)\<close>) and the exception it was
  raised \<^verbatim>\<open>from\<close>. The texts that \<^verbatim>\<open>api.py\<close> composes are exact; the text of an error that
  the interpreter or a library raises is only indicative.
\<close>

datatype exn = Exn (cls: exn_class) (msg: string) (cause: "exn option")

text \<open>
  The subclass relation among these classes, as the class statements of \<^verbatim>\<open>api.py\<close> and
  of aiohttp give it. Every class is below \<^verbatim>\<open>Exception\<close>, which needs no entry of its own.
\<close>

definition superclasses :: "exn_class \<Rightarrow> exn_class list" where
  "superclasses c =
     (case c of
        ClientResponseError \<Rightarrow> [ClientError]
      | ClientConnectionError \<Rightarrow> [ClientError]
      | ServerTimeoutError \<Rightarrow> [ClientConnectionError, ClientError, TimeoutError]
      | SleepmeApiClientCommunicationError \<Rightarrow> [SleepmeApiClientError]
      | SleepmeApiClientAuthenticationError \<Rightarrow> [SleepmeApiClientError]
      | SleepmeApiClientRateLimitError \<Rightarrow> [SleepmeApiClientError]
      | _ \<Rightarrow> [])"

definition isinstance :: "exn \<Rightarrow> exn_class \<Rightarrow> bool" where
  "isinstance e c = (cls e = c \<or> c \<in> set (superclasses (cls e)))"

section \<open>Python values\<close>

text \<open>
  \<^verbatim>\<open>decimal.Decimal\<close>, held as coefficient and exponent (the value is
  \<open>coefficient * 10 ^ exponent\<close>).
\<close>

datatype decimal = Decimal (coefficient: int) (exponent: int)

datatype temperature_unit = Unit_f | Unit_c

datatype thermal_status = Active | Standby

text \<open>The pydantic models of \<^verbatim>\<open>api.py\<close>, field by field.\<close>

record SleepmeDevice =
  dev_id :: string
  dev_name :: string
  attachments :: "string list"

record SleepmeDevices =
  devices :: "SleepmeDevice list"

record SleepmeDeviceAbout =
  firmware_version :: string
  ip_address :: string
  lan_address :: string
  mac_address :: string
  model :: string
  serial_number :: string

record SleepmeDeviceControl =
  brightness_level :: int
  display_temperature_unit :: temperature_unit
  set_temperature_c :: decimal
  set_temperature_f :: decimal
  thermal_control_status :: thermal_status
  time_zone :: string

record SleepmeDeviceStatus =
  is_connected :: bool
  is_water_low :: bool
  water_level :: int
  water_temperature_c :: decimal
  water_temperature_f :: decimal

record SleepmeDeviceState =
  about :: SleepmeDeviceAbout
  control :: SleepmeDeviceControl
  status :: SleepmeDeviceStatus

text \<open>
  The coordinator is dynamically typed: what it subscripts, unpacks and dumps is whatever
  the client hands it. A value is therefore one of the plain Python values (a dictionary
  keeps its insertion order and is keyed by strings, as every dictionary of this program
  is) or an instance of one of the pydantic models.
\<close>

datatype pyval =
    PyNone
  | PyBool bool
  | PyInt int
  | PyStr string
  | PyDecimal decimal
  | PyList "pyval list"
  | PyDict "(string \<times> pyval) list"
  | PyDevice SleepmeDevice
  | PyDeviceState SleepmeDeviceState
  | PyDeviceControl SleepmeDeviceControl

section \<open>The HTTP client (api.py)\<close>

datatype HTTPMethod = GET | PATCH

record request =
  req_method :: HTTPMethod
  req_url :: string
  req_headers :: "(string \<times> string) list"
  req_json :: "(string \<times> pyval) list"

text \<open>
  What the code reads of an \<^verbatim>\<open>aiohttp.ClientResponse\<close>: the status, the reason phrase
  (the text of the error that \<^verbatim>\<open>raise_for_status\<close> raises) and the outcome of
  \<^verbatim>\<open>await response.read()\<close>, which yields the body or raises.
\<close>

record response =
  resp_status :: int
  resp_reason :: string
  resp_read :: "exn + string"

datatype log_record =
    LogInfo string
  | LogDebugResponse HTTPMethod string string
  | LogError exn

definition HEADERS :: "(string \<times> string) list" where
  "HEADERS = [(''Content-type'', ''application/json; charset=UTF-8'')]"

text \<open>
  \<^verbatim>\<open>response.raise_for_status()\<close> is aiohttp's: it raises \<^verbatim>\<open>ClientResponseError\<close> when the
  status is 400 or above and returns otherwise.
\<close>

definition raise_for_status :: "response \<Rightarrow> exn + unit" where
  "raise_for_status r =
     (if 400 \<le> resp_status r then Inl (Exn ClientResponseError (resp_reason r) None)
      else Inr ())"

definition verify_response_or_raise :: "response \<Rightarrow> exn + unit" where
  "verify_response_or_raise r =
     (if resp_status r = 401 \<or> resp_status r = 403 then
        Inl (Exn SleepmeApiClientAuthenticationError ''Invalid credentials'' None)
      else if resp_status r = 429 then
        Inl (Exn SleepmeApiClientRateLimitError ''Rate limit exceeded'' None)
      else raise_for_status r)"

text \<open>
  The three \<^verbatim>\<open>except\<close> clauses of \<^verbatim>\<open>api_wrapper\<close>, tried in the order of the source: the
  exception that left the \<^verbatim>\<open>try\<close> body is mapped to the exception the wrapper raises.
\<close>

definition api_wrapper_except :: "exn \<Rightarrow> exn" where
  "api_wrapper_except e =
     (if isinstance e TimeoutError then
        Exn SleepmeApiClientCommunicationError
          (''Timeout error fetching information - '' @ msg e) (Some e)
      else if isinstance e ClientError \<or> isinstance e gaierror then
        Exn SleepmeApiClientCommunicationError
          (''Error fetching information - '' @ msg e) (Some e)
      else
        Exn SleepmeApiClientError
          (''Something really wrong happened! - '' @ msg e) (Some e))"

text \<open>
  The body of the \<^verbatim>\<open>try\<close>: send the request, verify the status, read the body, validate
  it against the response model. The session is the network: a function from its own
  state and the request to the outcome of \<^verbatim>\<open>session.request\<close> (a response, or an
  exception such as a timeout or a connection failure) and its next state; the expiry of
  \<^verbatim>\<open>async_timeout.timeout(10)\<close> shows as a \<^verbatim>\<open>TimeoutError\<close> from the request or from
  reading the body, the two places where the body waits. The response
  model is the parameter \<^verbatim>\<open>response_model\<close> of the source, given by its
  \<^verbatim>\<open>model_validate_json\<close>.
\<close>

definition api_wrapper_try ::
  "('s \<Rightarrow> request \<Rightarrow> (exn + response) \<times> 's) \<Rightarrow> 's \<Rightarrow> request \<Rightarrow> (string \<Rightarrow> exn + 'a)
     \<Rightarrow> (exn + 'a) \<times> 's \<times> log_record list" where
  "api_wrapper_try session s rq response_model =
     (case session s rq of
        (Inl e, s') \<Rightarrow> (Inl e, s', [])
      | (Inr r, s') \<Rightarrow>
          (case verify_response_or_raise r of
             Inl e \<Rightarrow> (Inl e, s', [])
           | Inr _ \<Rightarrow>
               (case resp_read r of
                  Inl e \<Rightarrow> (Inl e, s', [])
                | Inr content \<Rightarrow>
                    (response_model content, s',
                     [LogDebugResponse (req_method rq) (req_url rq) content]))))"

text \<open>
  \<^verbatim>\<open>api_wrapper\<close>. \<open>can_send\<close> is the verdict of
  \<^verbatim>\<open>self._rate_limiter.can_send_request()\<close> for this call (the limiter's module is not part
  of the sources at hand, so its verdict is an argument).
\<close>

definition build_request ::
  "string \<Rightarrow> HTTPMethod \<Rightarrow> string \<Rightarrow> (string \<times> pyval) list option \<Rightarrow> request" where
  "build_request api_key method url payload =
     \<lparr>req_method = method,
      req_url = url,
      req_headers = AList.update ''Authorization'' (''Bearer '' @ api_key) HEADERS,
      req_json = (case payload of None \<Rightarrow> [] | Some d \<Rightarrow> d)\<rparr>"

definition api_wrapper ::
  "string \<Rightarrow> bool \<Rightarrow> ('s \<Rightarrow> request \<Rightarrow> (exn + response) \<times> 's) \<Rightarrow> 's \<Rightarrow> HTTPMethod \<Rightarrow> string
     \<Rightarrow> (string \<Rightarrow> exn + 'a) \<Rightarrow> (string \<times> pyval) list option
     \<Rightarrow> (exn + 'a) \<times> 's \<times> log_record list" where
  "api_wrapper api_key can_send session s method url response_model payload =
     (let rq = build_request api_key method url payload;
          limiter_log = (if \<not> can_send then [LogInfo ''Rate limit exceeded''] else [])
      in case api_wrapper_try session s rq response_model of
           (Inl e, s', lg) \<Rightarrow> (Inl (api_wrapper_except e), s', limiter_log @ lg)
         | (Inr v, s', lg) \<Rightarrow> (Inr v, s', limiter_log @ lg))"

section \<open>Response models with code of their own (api.py)\<close>

definition is_chilipad_pro :: "SleepmeDevice \<Rightarrow> bool" where
  "is_chilipad_pro d = (''CHILIPAD_PRO'' \<in> set (attachments d))"

text \<open>
  \<^verbatim>\<open>SleepmeDevices.validate_devices\<close>, the \<^verbatim>\<open>mode="before"\<close> validator: it sees the decoded
  JSON value and wraps a list.
\<close>

definition validate_devices :: "pyval \<Rightarrow> pyval" where
  "validate_devices v = (case v of PyList xs \<Rightarrow> PyDict [(''devices'', v)] | _ \<Rightarrow> v)"

text \<open>
  Validation of one decoded value against the fields \<^verbatim>\<open>SleepmeDevice\<close> declares
  (\<^verbatim>\<open>id: str\<close>, \<^verbatim>\<open>name: str\<close>, \<^verbatim>\<open>attachments: list[str] = []\<close>), as pydantic derives it from
  the class: an object with string \<^verbatim>\<open>id\<close> and \<^verbatim>\<open>name\<close>; \<^verbatim>\<open>attachments\<close>, when present, a list
  of strings; other keys are ignored. The text of a validation error is pydantic's and is
  not modelled.
\<close>

definition str_items :: "pyval list \<Rightarrow> string list option" where
  "str_items xs =
     (if list_all (\<lambda>x. case x of PyStr s \<Rightarrow> True | _ \<Rightarrow> False) xs
      then Some (map (\<lambda>x. case x of PyStr s \<Rightarrow> s | _ \<Rightarrow> []) xs) else None)"

definition SleepmeDevice_model_validate :: "pyval \<Rightarrow> exn + SleepmeDevice" where
  "SleepmeDevice_model_validate v =
     (case v of
        PyDict kvs \<Rightarrow>
          (case (map_of kvs ''id'', map_of kvs ''name'') of
             (Some (PyStr i), Some (PyStr n)) \<Rightarrow>
               (case map_of kvs ''attachments'' of
                  None \<Rightarrow> Inr \<lparr>dev_id = i, dev_name = n, attachments = []\<rparr>
                | Some (PyList xs) \<Rightarrow>
                    (case str_items xs of
                       Some tags \<Rightarrow> Inr \<lparr>dev_id = i, dev_name = n, attachments = tags\<rparr>
                     | None \<Rightarrow> Inl (Exn ValidationError ''SleepmeDevice'' None))
                | Some _ \<Rightarrow> Inl (Exn ValidationError ''SleepmeDevice'' None))
           | _ \<Rightarrow> Inl (Exn ValidationError ''SleepmeDevice'' None))
      | _ \<Rightarrow> Inl (Exn ValidationError ''SleepmeDevice'' None))"

text \<open>All items of a list are validated; the list is accepted when every item is.\<close>

fun validate_items :: "pyval list \<Rightarrow> exn + SleepmeDevice list" where
  "validate_items [] = Inr []"
| "validate_items (x # xs) =
     (case SleepmeDevice_model_validate x of
        Inl e \<Rightarrow> Inl (Exn ValidationError ''SleepmeDevices'' None)
      | Inr d \<Rightarrow>
          (case validate_items xs of
             Inl e \<Rightarrow> Inl e
           | Inr ds \<Rightarrow> Inr (d # ds)))"

definition SleepmeDevices_model_validate :: "pyval \<Rightarrow> exn + SleepmeDevices" where
  "SleepmeDevices_model_validate v =
     (case validate_devices v of
        PyDict kvs \<Rightarrow>
          (case map_of kvs ''devices'' of
             Some (PyList xs) \<Rightarrow>
               (case validate_items xs of
                  Inl e \<Rightarrow> Inl e
                | Inr ds \<Rightarrow> Inr \<lparr>devices = ds\<rparr>)
           | _ \<Rightarrow> Inl (Exn ValidationError ''SleepmeDevices'' None))
      | _ \<Rightarrow> Inl (Exn ValidationError ''SleepmeDevices'' None))"

text \<open>
  \<^verbatim>\<open>model_validate_json\<close>: the JSON reader is the library's, so it is an argument
  (\<open>None\<close> when the bytes are not JSON).
\<close>

definition SleepmeDevices_model_validate_json ::
  "(string \<Rightarrow> pyval option) \<Rightarrow> string \<Rightarrow> exn + SleepmeDevices" where
  "SleepmeDevices_model_validate_json json_loads content =
     (case json_loads content of
        None \<Rightarrow> Inl (Exn ValidationError ''SleepmeDevices'' None)
      | Some v \<Rightarrow> SleepmeDevices_model_validate v)"

definition serialize_devices :: "SleepmeDevices \<Rightarrow> SleepmeDevice list" where
  "serialize_devices m = devices m"

section \<open>model_dump\<close>

definition dump_device :: "SleepmeDevice \<Rightarrow> pyval" where
  "dump_device d =
     PyDict [(''id'', PyStr (dev_id d)), (''name'', PyStr (dev_name d)),
             (''attachments'', PyList (map PyStr (attachments d)))]"

definition dump_devices :: "SleepmeDevices \<Rightarrow> pyval" where
  "dump_devices m = PyList (map dump_device (serialize_devices m))"

definition dump_about :: "SleepmeDeviceAbout \<Rightarrow> pyval" where
  "dump_about a =
     PyDict [(''firmware_version'', PyStr (firmware_version a)),
             (''ip_address'', PyStr (ip_address a)),
             (''lan_address'', PyStr (lan_address a)),
             (''mac_address'', PyStr (mac_address a)),
             (''model'', PyStr (model a)),
             (''serial_number'', PyStr (serial_number a))]"

definition dump_control :: "SleepmeDeviceControl \<Rightarrow> pyval" where
  "dump_control c =
     PyDict [(''brightness_level'', PyInt (brightness_level c)),
             (''display_temperature_unit'',
                PyStr (case display_temperature_unit c of Unit_f \<Rightarrow> ''f'' | Unit_c \<Rightarrow> ''c'')),
             (''set_temperature_c'', PyDecimal (set_temperature_c c)),
             (''set_temperature_f'', PyDecimal (set_temperature_f c)),
             (''thermal_control_status'',
                PyStr (case thermal_control_status c of Active \<Rightarrow> ''active'' | Standby \<Rightarrow> ''standby'')),
             (''time_zone'', PyStr (time_zone c))]"

definition dump_status :: "SleepmeDeviceStatus \<Rightarrow> pyval" where
  "dump_status s =
     PyDict [(''is_connected'', PyBool (is_connected s)),
             (''is_water_low'', PyBool (is_water_low s)),
             (''water_level'', PyInt (water_level s)),
             (''water_temperature_c'', PyDecimal (water_temperature_c s)),
             (''water_temperature_f'', PyDecimal (water_temperature_f s))]"

definition dump_state :: "SleepmeDeviceState \<Rightarrow> pyval" where
  "dump_state s =
     PyDict [(''about'', dump_about (about s)), (''control'', dump_control (control s)),
             (''status'', dump_status (status s))]"

text \<open>\<^verbatim>\<open>value.model_dump()\<close> on whatever value the caller holds.\<close>

definition model_dump :: "pyval \<Rightarrow> exn + pyval" where
  "model_dump v =
     (case v of
        PyDevice d \<Rightarrow> Inr (dump_device d)
      | PyDeviceState s \<Rightarrow> Inr (dump_state s)
      | PyDeviceControl c \<Rightarrow> Inr (dump_control c)
      | _ \<Rightarrow> Inl (Exn AttributeError ''model_dump'' None))"

section \<open>The client operations (api.py)\<close>

definition devices_url :: string where
  "devices_url = ''https://api.developer.sleep.me/v1/devices''"

definition device_url :: "string \<Rightarrow> string" where
  "device_url device_id = ''https://api.developer.sleep.me/v1/devices/'' @ device_id"

definition async_get_devices ::
  "string \<Rightarrow> bool \<Rightarrow> ('s \<Rightarrow> request \<Rightarrow> (exn + response) \<times> 's) \<Rightarrow> 's
     \<Rightarrow> (string \<Rightarrow> pyval option) \<Rightarrow> (exn + SleepmeDevice list) \<times> 's \<times> log_record list" where
  "async_get_devices api_key can_send session s json_loads =
     (case api_wrapper api_key can_send session s GET devices_url
             (SleepmeDevices_model_validate_json json_loads) None of
        (Inl e, s', lg) \<Rightarrow> (Inl e, s', lg)
      | (Inr ds, s', lg) \<Rightarrow> (Inr (filter is_chilipad_pro (devices ds)), s', lg))"

text \<open>
  The other three operations pass a response model whose validation is entirely
  pydantic's; it stays the argument it is for \<^verbatim>\<open>api_wrapper\<close>.
\<close>

definition async_get_device_state ::
  "string \<Rightarrow> bool \<Rightarrow> ('s \<Rightarrow> request \<Rightarrow> (exn + response) \<times> 's) \<Rightarrow> 's
     \<Rightarrow> (string \<Rightarrow> exn + SleepmeDeviceState) \<Rightarrow> string
     \<Rightarrow> (exn + SleepmeDeviceState) \<times> 's \<times> log_record list" where
  "async_get_device_state api_key can_send session s state_model device_id =
     api_wrapper api_key can_send session s GET (device_url device_id) state_model None"

definition async_set_device_temperature ::
  "string \<Rightarrow> bool \<Rightarrow> ('s \<Rightarrow> request \<Rightarrow> (exn + response) \<times> 's) \<Rightarrow> 's
     \<Rightarrow> (string \<Rightarrow> exn + SleepmeDeviceControl) \<Rightarrow> string \<Rightarrow> int
     \<Rightarrow> (exn + SleepmeDeviceControl) \<times> 's \<times> log_record list" where
  "async_set_device_temperature api_key can_send session s control_model device_id temperature =
     api_wrapper api_key can_send session s PATCH (device_url device_id) control_model
       (Some [(''set_temperature_f'', PyInt temperature)])"

definition async_set_device_mode ::
  "string \<Rightarrow> bool \<Rightarrow> ('s \<Rightarrow> request \<Rightarrow> (exn + response) \<times> 's) \<Rightarrow> 's
     \<Rightarrow> (string \<Rightarrow> exn + SleepmeDeviceControl) \<Rightarrow> string \<Rightarrow> string
     \<Rightarrow> (exn + SleepmeDeviceControl) \<times> 's \<times> log_record list" where
  "async_set_device_mode api_key can_send session s control_model device_id mode =
     api_wrapper api_key can_send session s PATCH (device_url device_id) control_model
       (Some [(''thermal_control_status'', PyStr mode)])"

section \<open>Dynamic operations the coordinator performs on its values\<close>

text \<open>
  \<^verbatim>\<open>v[key]\<close> with a string key: a dictionary answers or raises \<^verbatim>\<open>KeyError\<close>; every other
  value of the embedding (a list, a string, a number, \<^verbatim>\<open>None\<close>, a pydantic model) raises
  \<^verbatim>\<open>TypeError\<close>.
\<close>

definition getitem :: "pyval \<Rightarrow> string \<Rightarrow> exn + pyval" where
  "getitem v k =
     (case v of
        PyDict kvs \<Rightarrow>
          (case map_of kvs k of
             None \<Rightarrow> Inl (Exn KeyError k None)
           | Some x \<Rightarrow> Inr x)
      | _ \<Rightarrow> Inl (Exn TypeError ''not subscriptable with a string'' None))"

text \<open>
  \<^verbatim>\<open>{**a, **b}\<close>: a new dictionary updated with the items of \<open>a\<close>, then with the items of
  \<open>b\<close>; an operand that is not a mapping raises \<^verbatim>\<open>TypeError\<close>.
\<close>

definition dict_update_all :: "(string \<times> pyval) list \<Rightarrow> (string \<times> pyval) list \<Rightarrow> (string \<times> pyval) list" where
  "dict_update_all d items = fold (\<lambda>(k, v). AList.update k v) items d"

definition unpack_merge :: "pyval \<Rightarrow> pyval \<Rightarrow> exn + pyval" where
  "unpack_merge a b =
     (case a of
        PyDict xs \<Rightarrow>
          (case b of
             PyDict ys \<Rightarrow> Inr (PyDict (dict_update_all (dict_update_all [] xs) ys))
           | _ \<Rightarrow> Inl (Exn TypeError ''not a mapping'' None))
      | _ \<Rightarrow> Inl (Exn TypeError ''not a mapping'' None))"

text \<open>
  What \<^verbatim>\<open>json.dumps\<close> accepts with its default encoder: \<^verbatim>\<open>None\<close>, booleans, integers,
  strings, lists and string-keyed dictionaries of such values. A \<^verbatim>\<open>Decimal\<close> or a model
  instance makes it raise \<^verbatim>\<open>TypeError\<close>.
\<close>

primrec json_serializable :: "pyval \<Rightarrow> bool" where
  "json_serializable PyNone = True"
| "json_serializable (PyBool b) = True"
| "json_serializable (PyInt i) = True"
| "json_serializable (PyStr s) = True"
| "json_serializable (PyDecimal d) = False"
| "json_serializable (PyList xs) = list_all id (map json_serializable xs)"
| "json_serializable (PyDict kvs) = list_all snd (map (map_prod id json_serializable) kvs)"
| "json_serializable (PyDevice d) = False"
| "json_serializable (PyDeviceState s) = False"
| "json_serializable (PyDeviceControl c) = False"

text \<open>
  \<^verbatim>\<open>self.data[device_id]["status"] = v\<close>: \<^verbatim>\<open>self.data\<close> must be a dictionary holding
  \<open>device_id\<close>, and the entry found there must itself be a dictionary.
\<close>

definition cache_set_status :: "pyval \<Rightarrow> string \<Rightarrow> pyval \<Rightarrow> exn + pyval" where
  "cache_set_status cache device_id v =
     (case cache of
        PyDict entries \<Rightarrow>
          (case map_of entries device_id of
             None \<Rightarrow> Inl (Exn KeyError device_id None)
           | Some entry \<Rightarrow>
               (case entry of
                  PyDict kvs \<Rightarrow>
                    Inr (PyDict (AList.update device_id
                                   (PyDict (AList.update ''status'' v kvs)) entries))
                | _ \<Rightarrow> Inl (Exn TypeError ''does not support item assignment'' None)))
      | _ \<Rightarrow> Inl (Exn TypeError ''not subscriptable with a string'' None))"

section \<open>The coordinator (coordinator.py)\<close>

text \<open>
  The coordinator's state. \<open>known_devices\<close> is \<^verbatim>\<open>self._devices\<close> and \<open>data\<close> is
  \<^verbatim>\<open>self.data\<close>, the cache (\<^verbatim>\<open>None\<close> until a refresh has stored a result). The other
  three fields are what the base class, Home Assistant's \<^verbatim>\<open>DataUpdateCoordinator\<close>, keeps:
  whether the last refresh succeeded, whether an authentication failure has stopped the
  polling and started re-authentication (the state the specification calls Halted), and
  how many times the listeners have been told to update.
\<close>

record coordinator =
  known_devices :: "pyval list"
  data :: pyval
  last_update_success :: bool
  halted :: bool
  listener_updates :: nat

text \<open>
  The client the coordinator talks to is the object at
  \<^verbatim>\<open>config_entry.runtime_data.client\<close>; the coordinator only calls its methods. Each method
  is a function from the client's own state and the arguments to the outcome (a value or
  a raised exception) and the client's next state.

  \<^verbatim>\<open>_async_setup\<close> stores what the client returns and then evaluates the argument of its
  \<^verbatim>\<open>LOGGER.debug\<close> call, the list comprehension
  \<^verbatim>\<open>[device['name'] for device in self._devices]\<close>.
\<close>

fun device_names :: "pyval list \<Rightarrow> exn + pyval list" where
  "device_names [] = Inr []"
| "device_names (device # rest) =
     (case getitem device ''name'' of
        Inl e \<Rightarrow> Inl e
      | Inr n \<Rightarrow>
          (case device_names rest of
             Inl e \<Rightarrow> Inl e
           | Inr ns \<Rightarrow> Inr (n # ns)))"

definition coordinator_async_setup ::
  "('c \<Rightarrow> (exn + pyval list) \<times> 'c) \<Rightarrow> 'c \<Rightarrow> coordinator \<Rightarrow> (exn + unit) \<times> 'c \<times> coordinator" where
  "coordinator_async_setup get_devices c co =
     (case get_devices c of
        (Inl e, c') \<Rightarrow> (Inl e, c', co)
      | (Inr ds, c') \<Rightarrow>
          (case device_names ds of
             Inl e \<Rightarrow> (Inl e, c', co\<lparr>known_devices := ds\<rparr>)
           | Inr ns \<Rightarrow> (Inr (), c', co\<lparr>known_devices := ds\<rparr>)))"

text \<open>
  The argument of the \<^verbatim>\<open>LOGGER.debug\<close> call inside the loop is an f-string, evaluated
  whatever the log level: it subscripts the device with \<^verbatim>\<open>'name'\<close> and passes the merged
  entry to \<^verbatim>\<open>json.dumps\<close>.
\<close>

definition debug_device_state :: "pyval \<Rightarrow> pyval \<Rightarrow> exn + unit" where
  "debug_device_state device merged =
     (case getitem device ''name'' of
        Inl e \<Rightarrow> Inl e
      | Inr n \<Rightarrow>
          (if json_serializable merged then Inr ()
           else Inl (Exn TypeError ''not JSON serializable'' None)))"

text \<open>
  The \<^verbatim>\<open>for\<close> loop of \<^verbatim>\<open>_async_update_data\<close>. Whatever is raised inside leaves the loop at
  once. The overall \<^verbatim>\<open>async_timeout.timeout(10)\<close> can only fire while the loop awaits the
  client, so its \<^verbatim>\<open>TimeoutError\<close> is one of the exceptions a fetch can answer with.
  Dictionaries of the embedding are keyed by strings: a device whose \<^verbatim>\<open>id\<close> is not a
  string is outside the embedding and the loop answers \<^verbatim>\<open>NotModelled\<close> for it.
\<close>

fun update_loop ::
  "('c \<Rightarrow> string \<Rightarrow> (exn + pyval) \<times> 'c) \<Rightarrow> pyval list \<Rightarrow> 'c \<Rightarrow> (string \<times> pyval) list
     \<Rightarrow> (exn + (string \<times> pyval) list) \<times> 'c" where
  "update_loop fetch [] c results = (Inr results, c)"
| "update_loop fetch (device # rest) c results =
     (case getitem device ''id'' of
        Inl e \<Rightarrow> (Inl e, c)
      | Inr idv \<Rightarrow>
          (case idv of
             PyStr device_id \<Rightarrow>
               (case fetch c device_id of
                  (Inl e, c') \<Rightarrow> (Inl e, c')
                | (Inr state, c') \<Rightarrow>
                    (case unpack_merge device state of
                       Inl e \<Rightarrow> (Inl e, c')
                     | Inr merged \<Rightarrow>
                         (case debug_device_state device merged of
                            Inl e \<Rightarrow> (Inl e, c')
                          | Inr u \<Rightarrow>
                              update_loop fetch rest c'
                                (AList.update device_id merged results))))
           | _ \<Rightarrow> (Inl (Exn NotModelled ''device id is not a string'' None), c)))"

text \<open>
  \<^verbatim>\<open>_async_update_data\<close>: the loop inside one \<^verbatim>\<open>try\<close>, with its two handlers and its
  \<^verbatim>\<open>else\<close>.
\<close>

definition coordinator_async_update_data ::
  "('c \<Rightarrow> string \<Rightarrow> (exn + pyval) \<times> 'c) \<Rightarrow> 'c \<Rightarrow> coordinator
     \<Rightarrow> (exn + (string \<times> pyval) list) \<times> 'c \<times> log_record list" where
  "coordinator_async_update_data fetch c co =
     (case update_loop fetch (known_devices co) c [] of
        (Inl e, c') \<Rightarrow>
          (if isinstance e SleepmeApiClientAuthenticationError then
             (Inl (Exn ConfigEntryAuthFailed (msg e) (Some e)), c', [])
           else if isinstance e SleepmeApiClientError then
             (Inl e, c', [LogError e])
           else (Inl e, c', []))
      | (Inr results, c') \<Rightarrow> (Inr results, c', []))"

text \<open>
  One refresh cycle as the base class runs it around \<^verbatim>\<open>_async_update_data\<close>. This part is
  Home Assistant's, not the repository's, and is modelled by its contract: a returned
  result becomes \<^verbatim>\<open>self.data\<close>; a raised exception leaves \<^verbatim>\<open>self.data\<close> as it was and
  marks the update as failed; \<^verbatim>\<open>ConfigEntryAuthFailed\<close> moreover starts re-authentication
  and schedules no further refresh. Listeners are updated after a success (the base
  class's default, \<^verbatim>\<open>always_update\<close>), and after a failure that follows a success.
\<close>

definition refresh ::
  "('c \<Rightarrow> string \<Rightarrow> (exn + pyval) \<times> 'c) \<Rightarrow> 'c \<Rightarrow> coordinator \<Rightarrow> coordinator \<times> 'c" where
  "refresh fetch c co =
     (case coordinator_async_update_data fetch c co of
        (Inr results, c', lg) \<Rightarrow>
          (co\<lparr>data := PyDict results, last_update_success := True,
              listener_updates := Suc (listener_updates co)\<rparr>, c')
      | (Inl e, c', lg) \<Rightarrow>
          (co\<lparr>last_update_success := False,
              halted := (halted co \<or> cls e = ConfigEntryAuthFailed),
              listener_updates :=
                (if last_update_success co then Suc (listener_updates co)
                 else listener_updates co)\<rparr>, c'))"

text \<open>
  The two mutation methods. Python evaluates the right-hand side
  \<^verbatim>\<open>status.model_dump()\<close> before the subscript target.
\<close>

definition coordinator_async_set_device_mode ::
  "('c \<Rightarrow> string \<Rightarrow> string \<Rightarrow> (exn + pyval) \<times> 'c) \<Rightarrow> string \<Rightarrow> string \<Rightarrow> 'c \<Rightarrow> coordinator
     \<Rightarrow> (exn + unit) \<times> 'c \<times> coordinator" where
  "coordinator_async_set_device_mode client_set_mode device_id mode c co =
     (case client_set_mode c device_id mode of
        (Inl e, c') \<Rightarrow> (Inl e, c', co)
      | (Inr st, c') \<Rightarrow>
          (case model_dump st of
             Inl e \<Rightarrow> (Inl e, c', co)
           | Inr dumped \<Rightarrow>
               (case cache_set_status (data co) device_id dumped of
                  Inl e \<Rightarrow> (Inl e, c', co)
                | Inr cache' \<Rightarrow> (Inr (), c', co\<lparr>data := cache'\<rparr>))))"

definition coordinator_async_set_device_temperature ::
  "('c \<Rightarrow> string \<Rightarrow> int \<Rightarrow> (exn + pyval) \<times> 'c) \<Rightarrow> string \<Rightarrow> int \<Rightarrow> 'c \<Rightarrow> coordinator
     \<Rightarrow> (exn + unit) \<times> 'c \<times> coordinator" where
  "coordinator_async_set_device_temperature client_set_temperature device_id temperature c co =
     (case client_set_temperature c device_id temperature of
        (Inl e, c') \<Rightarrow> (Inl e, c', co)
      | (Inr st, c') \<Rightarrow>
          (case model_dump st of
             Inl e \<Rightarrow> (Inl e, c', co)
           | Inr dumped \<Rightarrow>
               (case cache_set_status (data co) device_id dumped of
                  Inl e \<Rightarrow> (Inl e, c', co)
                | Inr cache' \<Rightarrow> (Inr (), c', co\<lparr>data := cache'\<rparr>))))"

text \<open>
  Reading \<^verbatim>\<open>coordinator.data[device_id][key]\<close>, as the entities of \<^verbatim>\<open>climate.py\<close> and
  \<^verbatim>\<open>binary_sensor.py\<close> do for the keys \<^verbatim>\<open>control\<close> and \<^verbatim>\<open>status\<close>.
\<close>

definition cache_sub_record :: "pyval \<Rightarrow> string \<Rightarrow> string \<Rightarrow> exn + pyval" where
  "cache_sub_record cache device_id key =
     (case getitem cache device_id of
        Inl e \<Rightarrow> Inl e
      | Inr entry \<Rightarrow> getitem entry key)"

section \<open>Example data\<close>

text \<open>
  Concrete inputs for the instances below: a session and a client that answer from a
  script and record what they were asked, two devices given as dictionaries, a device
  state as decoded JSON, and a control record as the server returns it.
\<close>

definition answer_with :: "response \<Rightarrow> request list \<Rightarrow> request \<Rightarrow> (exn + response) \<times> request list" where
  "answer_with r sent rq = (Inr r, sent @ [rq])"

definition example_response :: "int \<Rightarrow> string \<Rightarrow> response" where
  "example_response code body = \<lparr>resp_status = code, resp_reason = ''reason'', resp_read = Inr body\<rparr>"

definition example_json_loads :: "pyval \<Rightarrow> string \<Rightarrow> pyval option" where
  "example_json_loads v content = (if content = ''body'' then Some v else None)"

definition scripted ::
  "(string \<times> (exn + pyval)) list \<Rightarrow> string list \<Rightarrow> string \<Rightarrow> (exn + pyval) \<times> string list" where
  "scripted answers called device_id =
     (case map_of answers device_id of
        None \<Rightarrow> (Inl (Exn OtherError ''no answer'' None), called @ [device_id])
      | Some r \<Rightarrow> (r, called @ [device_id]))"

definition scripted_set ::
  "(exn + pyval) \<Rightarrow> string list \<Rightarrow> string \<Rightarrow> 'a \<Rightarrow> (exn + pyval) \<times> string list" where
  "scripted_set answer called device_id argument = (answer, called @ [device_id])"

definition example_device :: "string \<Rightarrow> string \<Rightarrow> pyval" where
  "example_device i n =
     PyDict [(''id'', PyStr i), (''name'', PyStr n),
             (''attachments'', PyList [PyStr ''CHILIPAD_PRO''])]"

definition example_state :: "int \<Rightarrow> pyval" where
  "example_state t =
     PyDict [(''about'', PyDict [(''model'', PyStr ''DP999NA'')]),
             (''control'', PyDict [(''set_temperature_f'', PyInt t),
                                   (''thermal_control_status'', PyStr ''active'')]),
             (''status'', PyDict [(''is_connected'', PyBool True),
                                  (''water_temperature_f'', PyInt 68)])]"

definition example_entry :: "string \<Rightarrow> string \<Rightarrow> int \<Rightarrow> pyval" where
  "example_entry i n t =
     PyDict [(''id'', PyStr i), (''name'', PyStr n),
             (''attachments'', PyList [PyStr ''CHILIPAD_PRO'']),
             (''about'', PyDict [(''model'', PyStr ''DP999NA'')]),
             (''control'', PyDict [(''set_temperature_f'', PyInt t),
                                   (''thermal_control_status'', PyStr ''active'')]),
             (''status'', PyDict [(''is_connected'', PyBool True),
                                  (''water_temperature_f'', PyInt 68)])]"

definition example_coordinator :: coordinator where
  "example_coordinator =
     \<lparr>known_devices = [example_device ''A'' ''Bed A'', example_device ''B'' ''Bed B''],
      data = PyDict [(''A'', example_entry ''A'' ''Bed A'' 70),
                     (''B'', example_entry ''B'' ''Bed B'' 70)],
      last_update_success = True,
      halted = False,
      listener_updates = 0\<rparr>"

definition example_control :: "int \<Rightarrow> SleepmeDeviceControl" where
  "example_control t =
     \<lparr>brightness_level = 100,
      display_temperature_unit = Unit_f,
      set_temperature_c = Decimal 22 0,
      set_temperature_f = Decimal t 0,
      thermal_control_status = Active,
      time_zone = ''UTC''\<rparr>"

definition communication_error :: exn where
  "communication_error =
     Exn SleepmeApiClientCommunicationError ''Error fetching information - connection failed''
       (Some (Exn ClientConnectionError ''connection failed'' None))"

definition authentication_error :: exn where
  "authentication_error = Exn SleepmeApiClientAuthenticationError ''Invalid credentials'' None"

text \<open>
  A remote device collection as decoded JSON: a Chilipad Pro, a device without the
  attachment, and a second Chilipad Pro.
\<close>

definition example_remote :: "pyval list" where
  "example_remote =
     [PyDict [(''id'', PyStr ''A''), (''name'', PyStr ''Bed A''),
              (''attachments'', PyList [PyStr ''CHILIPAD_PRO''])],
      PyDict [(''id'', PyStr ''C''), (''name'', PyStr ''Mat''),
              (''attachments'', PyList [])],
      PyDict [(''id'', PyStr ''B''), (''name'', PyStr ''Bed B''),
              (''attachments'', PyList [PyStr ''OTHER'', PyStr ''CHILIPAD_PRO''])]]"

definition example_remote_devices :: "SleepmeDevice list" where
  "example_remote_devices =
     [\<lparr>dev_id = ''A'', dev_name = ''Bed A'', attachments = [''CHILIPAD_PRO'']\<rparr>,
      \<lparr>dev_id = ''C'', dev_name = ''Mat'', attachments = []\<rparr>,
      \<lparr>dev_id = ''B'', dev_name = ''Bed B'', attachments = [''OTHER'', ''CHILIPAD_PRO'']\<rparr>]"

section \<open>Failure classification of the HTTP client\<close>

lemma isinstance_Exn:
  "isinstance (Exn k m ca) d = (k = d \<or> d \<in> set (superclasses k))"
  by (simp add: isinstance_def)

text \<open>What the handlers make of each class of exception that reaches them.\<close>

lemma api_wrapper_except_communication:
  assumes "cls e \<in> {TimeoutError, ServerTimeoutError, ClientError, ClientResponseError,
                     ClientConnectionError, gaierror}"
  shows "cls (api_wrapper_except e) = SleepmeApiClientCommunicationError"
  using assms
  by (cases e) (auto simp: api_wrapper_except_def isinstance_Exn superclasses_def)

lemma api_wrapper_except_generic:
  assumes "cls e \<notin> {TimeoutError, ServerTimeoutError, ClientError, ClientResponseError,
                     ClientConnectionError, gaierror}"
  shows "api_wrapper_except e =
           Exn SleepmeApiClientError (''Something really wrong happened! - '' @ msg e) (Some e)"
  using assms
  by (cases e)
     (auto simp: api_wrapper_except_def isinstance_Exn superclasses_def split: exn_class.splits)

text \<open>A timeout, a DNS failure or a connection failure of the request itself.\<close>

lemma api_wrapper_session_raises:
  assumes "session s (build_request k m u p) = (Inl e, s')"
  shows "fst (api_wrapper k cs session s m u rm p) = Inl (api_wrapper_except e)"
  using assms by (simp add: api_wrapper_def api_wrapper_try_def Let_def)

text \<open>A status of 400 or above other than 401, 403 and 429.\<close>

lemma api_wrapper_error_status:
  assumes "session s (build_request k m u p) = (Inr r, s')"
    and "400 \<le> resp_status r"
    and "resp_status r \<notin> {401, 403, 429}"
  shows "fst (api_wrapper k cs session s m u rm p) =
           Inl (Exn SleepmeApiClientCommunicationError
                  (''Error fetching information - '' @ resp_reason r)
                  (Some (Exn ClientResponseError (resp_reason r) None)))"
  using assms
  by (simp add: api_wrapper_def api_wrapper_try_def verify_response_or_raise_def
        raise_for_status_def api_wrapper_except_def isinstance_Exn superclasses_def Let_def)

text \<open>A body that the response model rejects, on a response that passed the status check.\<close>

lemma api_wrapper_validation_failure:
  assumes "session s (build_request k m u p) = (Inr r, s')"
    and "verify_response_or_raise r = Inr ()"
    and "resp_read r = Inr content"
    and "rm content = Inl (Exn ValidationError t None)"
  shows "fst (api_wrapper k cs session s m u rm p) =
           Inl (Exn SleepmeApiClientError (''Something really wrong happened! - '' @ t)
                  (Some (Exn ValidationError t None)))"
  using assms
  by (simp add: api_wrapper_def api_wrapper_try_def api_wrapper_except_def isinstance_Exn
        superclasses_def Let_def)

text \<open>
  The two exceptions that \<open>verify_response_or_raise\<close> raises itself are raised inside the
  \<^verbatim>\<open>try\<close>. Neither is a \<^verbatim>\<open>TimeoutError\<close>, an \<^verbatim>\<open>aiohttp.ClientError\<close> or a
  \<^verbatim>\<open>socket.gaierror\<close>, so the last handler, \<^verbatim>\<open>except Exception\<close>, catches them and raises a
  new plain \<^verbatim>\<open>SleepmeApiClientError\<close> from them.
\<close>

lemma api_wrapper_auth_status:
  assumes "session s (build_request k m u p) = (Inr r, s')"
    and "resp_status r = 401 \<or> resp_status r = 403"
  shows "fst (api_wrapper k cs session s m u rm p) =
           Inl (Exn SleepmeApiClientError
                  ''Something really wrong happened! - Invalid credentials''
                  (Some (Exn SleepmeApiClientAuthenticationError ''Invalid credentials'' None)))"
  using assms
  by (auto simp: api_wrapper_def api_wrapper_try_def verify_response_or_raise_def
        api_wrapper_except_def isinstance_Exn superclasses_def Let_def)

lemma api_wrapper_rate_limit_status:
  assumes "session s (build_request k m u p) = (Inr r, s')"
    and "resp_status r = 429"
  shows "fst (api_wrapper k cs session s m u rm p) =
           Inl (Exn SleepmeApiClientError
                  ''Something really wrong happened! - Rate limit exceeded''
                  (Some (Exn SleepmeApiClientRateLimitError ''Rate limit exceeded'' None)))"
  using assms
  by (auto simp: api_wrapper_def api_wrapper_try_def verify_response_or_raise_def
        api_wrapper_except_def isinstance_Exn superclasses_def Let_def)

text \<open>
  C1. The claim: on every response of an API operation a 401 or 403 status raises
  \<^verbatim>\<open>AuthenticationError\<close>, a 429 status raises \<^verbatim>\<open>RateLimitError\<close>, any other failing status, a
  timeout or a network failure raises \<^verbatim>\<open>CommunicationError\<close>, and anything else raises the
  generic error.

  The code does not do the first two. \<open>getDeviceState\<close> against a remote that answers
  401, 403 or 429 raises an exception whose class is exactly \<^verbatim>\<open>SleepmeApiClientError\<close>;
  the authentication or rate-limit error is only its cause. A caller that catches
  \<^verbatim>\<open>SleepmeApiClientAuthenticationError\<close>, as the coordinator does, does not catch it.
\<close>

theorem get_device_state_unauthorized_raises_generic_error:
  "fst (async_get_device_state ''key'' True (answer_with (example_response 401 [])) []
          state_model ''A'') =
     Inl (Exn SleepmeApiClientError ''Something really wrong happened! - Invalid credentials''
            (Some (Exn SleepmeApiClientAuthenticationError ''Invalid credentials'' None)))
   \<and> fst (async_get_device_state ''key'' True (answer_with (example_response 403 [])) []
          state_model ''A'') =
     Inl (Exn SleepmeApiClientError ''Something really wrong happened! - Invalid credentials''
            (Some (Exn SleepmeApiClientAuthenticationError ''Invalid credentials'' None)))
   \<and> fst (async_get_device_state ''key'' True (answer_with (example_response 429 [])) []
          state_model ''A'') =
     Inl (Exn SleepmeApiClientError ''Something really wrong happened! - Rate limit exceeded''
            (Some (Exn SleepmeApiClientRateLimitError ''Rate limit exceeded'' None)))"
  by (simp add: async_get_device_state_def api_wrapper_def api_wrapper_try_def Let_def
        answer_with_def example_response_def verify_response_or_raise_def
        api_wrapper_except_def isinstance_Exn superclasses_def)

section \<open>The rate limiter's verdict\<close>

text \<open>
  C8. Whatever the limiter answers, the call is the same call: the same result, the same
  session state afterwards for every session (so the session was asked the same), and
  the one request a recording session has seen is the request built from the method, the
  url, the key and the payload. A refusal only adds the message
  \<^verbatim>\<open>Rate limit exceeded\<close> in front of the log.
\<close>

theorem rate_limiter_verdict_only_logs:
  "fst (api_wrapper k False session s m u rm p) = fst (api_wrapper k True session s m u rm p)
   \<and> fst (snd (api_wrapper k False session s m u rm p)) =
       fst (snd (api_wrapper k True session s m u rm p))
   \<and> snd (snd (api_wrapper k False session s m u rm p)) =
       LogInfo ''Rate limit exceeded'' # snd (snd (api_wrapper k True session s m u rm p))
   \<and> fst (snd (api_wrapper k cs (\<lambda>sent rq. (answer rq, sent @ [rq])) [] m u rm p)) =
       [build_request k m u p]"
  by (auto simp: api_wrapper_def Let_def api_wrapper_try_def split: prod.splits sum.splits)

section \<open>Listing the devices\<close>

lemma count_list_filter:
  "count_list (filter P ys) d = (if P d then count_list ys d else 0)"
  by (induction ys) auto

lemma async_get_devices_result:
  assumes "session s (build_request k GET devices_url None) = (Inr r, s')"
    and "verify_response_or_raise r = Inr ()"
    and "resp_read r = Inr content"
    and "json_loads content = Some (PyList xs)"
    and "validate_items xs = Inr ds"
  shows "fst (async_get_devices k cs session s json_loads) = Inr (filter is_chilipad_pro ds)"
  using assms
  by (simp add: async_get_devices_def api_wrapper_def api_wrapper_try_def Let_def
        SleepmeDevices_model_validate_json_def SleepmeDevices_model_validate_def
        validate_devices_def)

text \<open>
  C7. When the remote answers the device request with a collection that decodes and
  validates to the devices \<open>ds\<close>, \<open>listDevices\<close> returns exactly the devices of \<open>ds\<close> that
  carry \<^verbatim>\<open>CHILIPAD_PRO\<close>, each as often as it occurs in \<open>ds\<close>, in the order of \<open>ds\<close>. The
  result depends on nothing but \<open>ds\<close>: not on the session state and not on the limiter,
  so two calls against an unchanged remote return the same sequence.
\<close>

theorem list_devices_filters_in_remote_order:
  assumes "session s (build_request k GET devices_url None) = (Inr r, s')"
    and "verify_response_or_raise r = Inr ()"
    and "resp_read r = Inr content"
    and "json_loads content = Some (PyList xs)"
    and "validate_items xs = Inr ds"
  shows "\<exists>res. fst (async_get_devices k cs session s json_loads) = Inr res
           \<and> set res = {d \<in> set ds. ''CHILIPAD_PRO'' \<in> set (attachments d)}
           \<and> (\<forall>d. ''CHILIPAD_PRO'' \<in> set (attachments d) \<longrightarrow> count_list res d = count_list ds d)
           \<and> subseq res ds
           \<and> res = filter is_chilipad_pro ds"
proof -
  have "fst (async_get_devices k cs session s json_loads) = Inr (filter is_chilipad_pro ds)"
    using assms by (rule async_get_devices_result)
  then show ?thesis
    by (auto simp: is_chilipad_pro_def count_list_filter)
qed

theorem list_devices_filters_in_remote_order_witness:
  "answer_with (example_response 200 ''body'') [] (build_request ''key'' GET devices_url None) =
     (Inr (example_response 200 ''body''), [build_request ''key'' GET devices_url None])
   \<and> verify_response_or_raise (example_response 200 ''body'') = Inr ()
   \<and> resp_read (example_response 200 ''body'') = Inr ''body''
   \<and> example_json_loads (PyList example_remote) ''body'' = Some (PyList example_remote)
   \<and> validate_items example_remote = Inr example_remote_devices
   \<and> fst (async_get_devices ''key'' True (answer_with (example_response 200 ''body'')) []
            (example_json_loads (PyList example_remote))) =
       Inr [\<lparr>dev_id = ''A'', dev_name = ''Bed A'', attachments = [''CHILIPAD_PRO'']\<rparr>,
            \<lparr>dev_id = ''B'', dev_name = ''Bed B'', attachments = [''OTHER'', ''CHILIPAD_PRO'']\<rparr>]"
proof -
  have h1: "answer_with (example_response 200 ''body'') []
              (build_request ''key'' GET devices_url None) =
            (Inr (example_response 200 ''body''), [build_request ''key'' GET devices_url None])"
    by (simp add: answer_with_def)
  have h2: "verify_response_or_raise (example_response 200 ''body'') = Inr ()"
    by (simp add: verify_response_or_raise_def raise_for_status_def example_response_def)
  have h3: "resp_read (example_response 200 ''body'') = Inr ''body''"
    by (simp add: example_response_def)
  have h4: "example_json_loads (PyList example_remote) ''body'' = Some (PyList example_remote)"
    by (simp add: example_json_loads_def)
  have h5: "validate_items example_remote = Inr example_remote_devices"
    by (simp add: example_remote_def example_remote_devices_def SleepmeDevice_model_validate_def
          str_items_def)
  have "\<exists>res. fst (async_get_devices ''key'' True (answer_with (example_response 200 ''body'')) []
            (example_json_loads (PyList example_remote))) = Inr res
          \<and> res = filter is_chilipad_pro example_remote_devices"
    using list_devices_filters_in_remote_order
            [of "answer_with (example_response 200 ''body'')" "[]" "''key''" _ _ _
                "example_json_loads (PyList example_remote)", OF h1 h2 h3 h4 h5]
    by blast
  then have "fst (async_get_devices ''key'' True (answer_with (example_response 200 ''body'')) []
            (example_json_loads (PyList example_remote))) =
       Inr [\<lparr>dev_id = ''A'', dev_name = ''Bed A'', attachments = [''CHILIPAD_PRO'']\<rparr>,
            \<lparr>dev_id = ''B'', dev_name = ''Bed B'', attachments = [''OTHER'', ''CHILIPAD_PRO'']\<rparr>]"
    by (simp add: example_remote_devices_def is_chilipad_pro_def)
  with h1 h2 h3 h4 h5 show ?thesis
    by blast
qed

section \<open>The device collection as a bare list\<close>

lemma validate_items_map:
  "list_all (\<lambda>x. \<not> isl (SleepmeDevice_model_validate x)) xs \<Longrightarrow>
     validate_items xs = Inr (map (\<lambda>x. projr (SleepmeDevice_model_validate x)) xs)"
  by (induction xs) (auto split: sum.splits)

lemma str_items_map_PyStr: "str_items (map PyStr tags) = Some tags"
proof -
  have "list_all (\<lambda>x. case x of PyStr s \<Rightarrow> True | _ \<Rightarrow> False) (map PyStr tags)"
    by (induction tags) simp_all
  moreover have "map (\<lambda>x. case x of PyStr s \<Rightarrow> s | _ \<Rightarrow> []) (map PyStr tags) = tags"
    by (induction tags) simp_all
  ultimately show ?thesis
    by (simp add: str_items_def)
qed

lemma validate_dump_device: "SleepmeDevice_model_validate (dump_device d) = Inr d"
  by (simp add: SleepmeDevice_model_validate_def dump_device_def str_items_map_PyStr)

lemma validate_items_dump: "validate_items (map dump_device ds) = Inr ds"
  by (induction ds) (simp_all add: validate_dump_device)

text \<open>
  C10. A bare list whose items all validate as devices is accepted as the device
  collection: the validator wraps it into the \<^verbatim>\<open>devices\<close> field, and the collection holds
  the validated items in order. Serializing a collection gives the bare list of its
  devices, not an object with a \<^verbatim>\<open>devices\<close> key. On a list of devices in their dumped
  form, parsing and then serializing gives back the very same list.
\<close>

theorem devices_bare_list_round_trip:
  assumes "list_all (\<lambda>x. \<not> isl (SleepmeDevice_model_validate x)) xs"
  shows "validate_devices (PyList xs) = PyDict [(''devices'', PyList xs)]
     \<and> SleepmeDevices_model_validate (PyList xs) =
          Inr \<lparr>devices = map (\<lambda>x. projr (SleepmeDevice_model_validate x)) xs\<rparr>
     \<and> serialize_devices \<lparr>devices = map (\<lambda>x. projr (SleepmeDevice_model_validate x)) xs\<rparr> =
          map (\<lambda>x. projr (SleepmeDevice_model_validate x)) xs
     \<and> dump_devices \<lparr>devices = map (\<lambda>x. projr (SleepmeDevice_model_validate x)) xs\<rparr> =
          PyList (map (\<lambda>x. dump_device (projr (SleepmeDevice_model_validate x))) xs)
     \<and> SleepmeDevices_model_validate (PyList (map dump_device ds)) = Inr \<lparr>devices = ds\<rparr>
     \<and> dump_devices \<lparr>devices = ds\<rparr> = PyList (map dump_device ds)"
  using assms
  by (simp add: validate_devices_def SleepmeDevices_model_validate_def validate_items_map
        validate_items_dump dump_devices_def serialize_devices_def comp_def)

theorem devices_bare_list_round_trip_witness:
  "list_all (\<lambda>x. \<not> isl (SleepmeDevice_model_validate x)) example_remote
   \<and> SleepmeDevices_model_validate (PyList example_remote) =
       Inr \<lparr>devices = example_remote_devices\<rparr>
   \<and> dump_devices \<lparr>devices = example_remote_devices\<rparr> = PyList example_remote"
proof -
  have h: "list_all (\<lambda>x. \<not> isl (SleepmeDevice_model_validate x)) example_remote"
    by (simp add: example_remote_def SleepmeDevice_model_validate_def str_items_def)
  have m: "map (\<lambda>x. projr (SleepmeDevice_model_validate x)) example_remote =
             example_remote_devices"
    by (simp add: example_remote_def example_remote_devices_def SleepmeDevice_model_validate_def
          str_items_def)
  have d: "map dump_device example_remote_devices = example_remote"
    by (simp add: example_remote_def example_remote_devices_def dump_device_def)
  have "SleepmeDevices_model_validate (PyList example_remote) =
          Inr \<lparr>devices = map (\<lambda>x. projr (SleepmeDevice_model_validate x)) example_remote\<rparr>
      \<and> dump_devices \<lparr>devices = example_remote_devices\<rparr> =
          PyList (map dump_device example_remote_devices)"
    using devices_bare_list_round_trip[OF h, of example_remote_devices] by blast
  then have "SleepmeDevices_model_validate (PyList example_remote) =
          Inr \<lparr>devices = example_remote_devices\<rparr>
      \<and> dump_devices \<lparr>devices = example_remote_devices\<rparr> = PyList example_remote"
    by (simp only: m d)
  with h show ?thesis
    by blast
qed

section \<open>The refresh loop\<close>

text \<open>The loop over a list that is split in two runs the first part, then the second.\<close>

lemma update_loop_append:
  "update_loop fetch (xs @ ys) c acc =
     (case update_loop fetch xs c acc of
        (Inl e, c') \<Rightarrow> (Inl e, c')
      | (Inr acc', c') \<Rightarrow> update_loop fetch ys c' acc')"
  by (induction xs arbitrary: c acc) (auto split: sum.splits prod.splits pyval.splits)

text \<open>
  A fetch that raises ends the loop: the devices after it are never looked at, and the
  client is left in the state the failing call put it in.
\<close>

lemma update_loop_aborts:
  assumes "update_loop fetch pre c acc = (Inr res1, c1)"
    and "getitem device ''id'' = Inr (PyStr i)"
    and "fetch c1 i = (Inl e, c2)"
  shows "update_loop fetch (pre @ device # post) c acc = (Inl e, c2)"
  using assms by (simp add: update_loop_append)






text \<open>
  What the merge \<^verbatim>\<open>{**device, **data}\<close> holds: the value of the state where the state has
  the key, the value of the device elsewhere.
\<close>

lemma map_of_dict_update_all:
  "map_of (dict_update_all d items) = map_of d ++ map_of (rev items)"
  unfolding dict_update_all_def
  by (induction items arbitrary: d) (auto simp: update_conv')

lemma unpack_merge_lookup:
  assumes "unpack_merge (PyDict xs) (PyDict ys) = Inr (PyDict zs)"
  shows "map_of zs k =
           (case map_of (rev ys) k of Some v \<Rightarrow> Some v | None \<Rightarrow> map_of (rev xs) k)"
  using assms
  by (auto simp: unpack_merge_def map_of_dict_update_all map_add_def split: option.splits)

text \<open>
  The devices that \<open>async_get_devices\<close> of \<^verbatim>\<open>api.py\<close> returns are model instances, not
  dictionaries. Subscripting one raises \<^verbatim>\<open>TypeError\<close>, in the setup as in the loop, before
  any state is fetched.
\<close>

lemma update_loop_model_instance:
  "update_loop fetch (PyDevice d # rest) c acc =
     (Inl (Exn TypeError ''not subscriptable with a string'' None), c)"
  by (simp add: getitem_def)

lemma setup_model_instance:
  assumes "get_devices c = (Inr (PyDevice d # rest), c')"
  shows "coordinator_async_setup get_devices c co =
           (Inl (Exn TypeError ''not subscriptable with a string'' None), c',
            co\<lparr>known_devices := PyDevice d # rest\<rparr>)"
  using assms by (simp add: coordinator_async_setup_def getitem_def)

lemma setup_stores_devices:
  assumes "coordinator_async_setup get_devices c co = (Inr (), c', co')"
  shows "\<exists>ds. get_devices c = (Inr ds, c') \<and> co' = co\<lparr>known_devices := ds\<rparr>"
  using assms
  by (auto simp: coordinator_async_setup_def split: sum.splits prod.splits)

section \<open>A refresh cycle in which a fetch fails\<close>

lemmas example_defs =
  example_coordinator_def example_device_def example_state_def example_entry_def
  scripted_def scripted_set_def communication_error_def authentication_error_def
  example_control_def

lemmas python_defs =
  getitem_def unpack_merge_def dict_update_all_def debug_device_state_def
  cache_sub_record_def cache_set_status_def model_dump_def dump_control_def

text \<open>
  C2 as stated does not hold. With the devices A and B, A's fetch failing with a
  communication error and B's fetch ready to succeed with a new state: the client is
  asked for A only, and B's cache entry after the cycle is the old one, not the merge with
  the state that B's fetch would have returned.
\<close>

theorem partial_failure_counterexample:
  "fst (scripted [(''A'', Inl communication_error), (''B'', Inr (example_state 71))] [] ''A'') =
     Inl communication_error
   \<and> fst (scripted [(''A'', Inl communication_error), (''B'', Inr (example_state 71))]
            [''A''] ''B'') = Inr (example_state 71)
   \<and> snd (refresh (scripted [(''A'', Inl communication_error), (''B'', Inr (example_state 71))])
            [] example_coordinator) = [''A'']
   \<and> getitem (data (fst (refresh
            (scripted [(''A'', Inl communication_error), (''B'', Inr (example_state 71))])
            [] example_coordinator))) ''B'' = Inr (example_entry ''B'' ''Bed B'' 70)
   \<and> unpack_merge (example_device ''B'' ''Bed B'') (example_state 71) =
       Inr (example_entry ''B'' ''Bed B'' 71)
   \<and> example_entry ''B'' ''Bed B'' 70 \<noteq> example_entry ''B'' ''Bed B'' 71"
  by (simp add: example_defs python_defs refresh_def coordinator_async_update_data_def
        isinstance_def superclasses_def)

text \<open>
  C2, amended. The loop is one \<^verbatim>\<open>try\<close>: when a device's fetch fails with a communication
  error (the devices before it having been fetched and merged), the cycle ends there.
  \<^verbatim>\<open>_async_update_data\<close> logs the error and raises that same error; the client is not
  called again, so no later device is fetched; the cache is left exactly as it was, for
  every device; the update counts as failed; and the coordinator does not become Halted.
\<close>

theorem communication_failure_fails_the_cycle:
  assumes "known_devices co = pre @ device # post"
    and "update_loop fetch pre c [] = (Inr res1, c1)"
    and "getitem device ''id'' = Inr (PyStr i)"
    and "fetch c1 i = (Inl e, c2)"
    and "cls e = SleepmeApiClientCommunicationError"
  shows "coordinator_async_update_data fetch c co = (Inl e, c2, [LogError e])
       \<and> snd (refresh fetch c co) = c2
       \<and> data (fst (refresh fetch c co)) = data co
       \<and> known_devices (fst (refresh fetch c co)) = known_devices co
       \<and> halted (fst (refresh fetch c co)) = halted co
       \<and> \<not> last_update_success (fst (refresh fetch c co))"
proof -
  have loop: "update_loop fetch (known_devices co) c [] = (Inl e, c2)"
    using assms(1-4) by (simp add: update_loop_aborts)
  have upd: "coordinator_async_update_data fetch c co = (Inl e, c2, [LogError e])"
    using loop assms(5)
    by (simp add: coordinator_async_update_data_def isinstance_def superclasses_def)
  show ?thesis
    using upd assms(5) by (simp add: refresh_def)
qed

theorem communication_failure_fails_the_cycle_witness:
  "known_devices example_coordinator = [] @ example_device ''A'' ''Bed A'' # [example_device ''B'' ''Bed B'']
   \<and> update_loop (scripted [(''A'', Inl communication_error), (''B'', Inr (example_state 71))])
        [] [] [] = (Inr [], [])
   \<and> getitem (example_device ''A'' ''Bed A'') ''id'' = Inr (PyStr ''A'')
   \<and> scripted [(''A'', Inl communication_error), (''B'', Inr (example_state 71))] [] ''A'' =
       (Inl communication_error, [''A''])
   \<and> cls communication_error = SleepmeApiClientCommunicationError
   \<and> coordinator_async_update_data
        (scripted [(''A'', Inl communication_error), (''B'', Inr (example_state 71))])
        [] example_coordinator = (Inl communication_error, [''A''], [LogError communication_error])
   \<and> data (fst (refresh
        (scripted [(''A'', Inl communication_error), (''B'', Inr (example_state 71))])
        [] example_coordinator)) = data example_coordinator
   \<and> halted (fst (refresh
        (scripted [(''A'', Inl communication_error), (''B'', Inr (example_state 71))])
        [] example_coordinator)) = halted example_coordinator"
proof -
  have h1: "known_devices example_coordinator =
              [] @ example_device ''A'' ''Bed A'' # [example_device ''B'' ''Bed B'']"
    by (simp add: example_coordinator_def)
  have h2: "update_loop (scripted [(''A'', Inl communication_error), (''B'', Inr (example_state 71))])
              [] [] [] = (Inr [], [])"
    by simp
  have h3: "getitem (example_device ''A'' ''Bed A'') ''id'' = Inr (PyStr ''A'')"
    by (simp add: example_device_def getitem_def)
  have h4: "scripted [(''A'', Inl communication_error), (''B'', Inr (example_state 71))] [] ''A'' =
              (Inl communication_error, [''A''])"
    by (simp add: scripted_def)
  have h5: "cls communication_error = SleepmeApiClientCommunicationError"
    by (simp add: communication_error_def)
  from communication_failure_fails_the_cycle[OF h1 h2 h3 h4 h5] h1 h2 h3 h4 h5
  show ?thesis
    by blast
qed

section \<open>A refresh cycle that meets an authentication error\<close>

text \<open>
  C6. When a device's fetch raises an authentication error, \<^verbatim>\<open>_async_update_data\<close> raises
  \<^verbatim>\<open>ConfigEntryAuthFailed\<close> from it and returns no results. The client is left in the
  state of the failing call: no further device is fetched. Around it, the cache stays as
  it was and the coordinator is Halted.
\<close>

theorem authentication_failure_halts:
  assumes "known_devices co = pre @ device # post"
    and "update_loop fetch pre c [] = (Inr res1, c1)"
    and "getitem device ''id'' = Inr (PyStr i)"
    and "fetch c1 i = (Inl e, c2)"
    and "cls e = SleepmeApiClientAuthenticationError"
  shows "coordinator_async_update_data fetch c co =
           (Inl (Exn ConfigEntryAuthFailed (msg e) (Some e)), c2, [])
       \<and> snd (refresh fetch c co) = c2
       \<and> data (fst (refresh fetch c co)) = data co
       \<and> halted (fst (refresh fetch c co))
       \<and> \<not> last_update_success (fst (refresh fetch c co))"
proof -
  have loop: "update_loop fetch (known_devices co) c [] = (Inl e, c2)"
    using assms(1-4) by (simp add: update_loop_aborts)
  have upd: "coordinator_async_update_data fetch c co =
               (Inl (Exn ConfigEntryAuthFailed (msg e) (Some e)), c2, [])"
    using loop assms(5)
    by (simp add: coordinator_async_update_data_def isinstance_def)
  show ?thesis
    using upd by (simp add: refresh_def)
qed

theorem authentication_failure_halts_witness:
  "known_devices example_coordinator = [example_device ''A'' ''Bed A''] @ example_device ''B'' ''Bed B'' # []
   \<and> update_loop (scripted [(''A'', Inr (example_state 71)), (''B'', Inl authentication_error)])
        [example_device ''A'' ''Bed A''] [] [] = (Inr [(''A'', example_entry ''A'' ''Bed A'' 71)], [''A''])
   \<and> getitem (example_device ''B'' ''Bed B'') ''id'' = Inr (PyStr ''B'')
   \<and> scripted [(''A'', Inr (example_state 71)), (''B'', Inl authentication_error)] [''A''] ''B'' =
       (Inl authentication_error, [''A'', ''B''])
   \<and> cls authentication_error = SleepmeApiClientAuthenticationError
   \<and> snd (refresh (scripted [(''A'', Inr (example_state 71)), (''B'', Inl authentication_error)])
        [] example_coordinator) = [''A'', ''B'']
   \<and> data (fst (refresh
        (scripted [(''A'', Inr (example_state 71)), (''B'', Inl authentication_error)])
        [] example_coordinator)) = data example_coordinator
   \<and> halted (fst (refresh
        (scripted [(''A'', Inr (example_state 71)), (''B'', Inl authentication_error)])
        [] example_coordinator))"
proof -
  have h1: "known_devices example_coordinator =
              [example_device ''A'' ''Bed A''] @ example_device ''B'' ''Bed B'' # []"
    by (simp add: example_coordinator_def)
  have h2: "update_loop (scripted [(''A'', Inr (example_state 71)), (''B'', Inl authentication_error)])
              [example_device ''A'' ''Bed A''] [] [] =
            (Inr [(''A'', example_entry ''A'' ''Bed A'' 71)], [''A''])"
    by (simp add: example_defs python_defs)
  have h3: "getitem (example_device ''B'' ''Bed B'') ''id'' = Inr (PyStr ''B'')"
    by (simp add: example_device_def getitem_def)
  have h4: "scripted [(''A'', Inr (example_state 71)), (''B'', Inl authentication_error)] [''A''] ''B'' =
              (Inl authentication_error, [''A'', ''B''])"
    by (simp add: scripted_def)
  have h5: "cls authentication_error = SleepmeApiClientAuthenticationError"
    by (simp add: authentication_error_def)
  from authentication_failure_halts[OF h1 h2 h3 h4 h5] h1 h2 h3 h4 h5
  show ?thesis
    by blast
qed

section \<open>A refresh cycle that succeeds\<close>



section \<open>The mutation methods\<close>








text \<open>
  C4. When the client call of a mutation method raises, whatever the exception, the
  method raises that same exception and the coordinator, its cache included, is exactly
  as before.
\<close>

theorem mutation_failure_leaves_cache:
  assumes "client_set_temperature c device_id temperature = (Inl e, c')"
    and "client_set_mode c device_id mode = (Inl e, c')"
  shows "coordinator_async_set_device_temperature client_set_temperature device_id
           temperature c co = (Inl e, c', co)
       \<and> coordinator_async_set_device_mode client_set_mode device_id mode c co = (Inl e, c', co)"
  using assms
  by (simp add: coordinator_async_set_device_temperature_def
        coordinator_async_set_device_mode_def)

theorem mutation_failure_leaves_cache_witness:
  "scripted_set (Inl communication_error) [] ''A'' (72::int) = (Inl communication_error, [''A''])
   \<and> scripted_set (Inl communication_error) [] ''A'' ''active'' = (Inl communication_error, [''A''])
   \<and> coordinator_async_set_device_temperature (scripted_set (Inl communication_error)) ''A'' 72 []
        example_coordinator = (Inl communication_error, [''A''], example_coordinator)
   \<and> coordinator_async_set_device_mode (scripted_set (Inl communication_error)) ''A'' ''active'' []
        example_coordinator = (Inl communication_error, [''A''], example_coordinator)"
proof -
  have h1: "scripted_set (Inl communication_error) [] ''A'' (72::int) =
              (Inl communication_error, [''A''])"
    by (simp add: scripted_set_def)
  have h2: "scripted_set (Inl communication_error) [] ''A'' ''active'' =
              (Inl communication_error, [''A''])"
    by (simp add: scripted_set_def)
  from mutation_failure_leaves_cache
         [of "scripted_set (Inl communication_error)" "[]" "''A''" "72" communication_error
             "[''A'']" "scripted_set (Inl communication_error)" "''active''" example_coordinator,
          OF h1 h2] h1 h2
  show ?thesis
    by blast
qed

end
